theory Spec2Isabelle
  imports Main "HOL-Library.Char_ord" "HOL-Library.List_Lexorder" "HOL-Library.Option_ord"
begin

section \<open>Data model of netflixanalysis.py\<close>

text \<open>
  A cell of the \<open>release_year\<close> column as SQLite stores it. SQLite types values and not
  columns: a cell is an integer (of at most 64 bits), a text or NULL; REAL and BLOB cells
  are left out. A Python \<open>str\<close> is a sequence of code points; a \<^typ>\<open>char\<close> stands for
  the code point of the same number, so the strings of the model are the Python strings
  over U+0000 .. U+00FF.
\<close>

datatype py_value = PyInt int | PyStr string | PyNone

datatype py_error = ValueError | OverflowError | TypeError

text \<open>
  A row of \<open>movies\<close> or \<open>tvshows\<close>. The script reads the columns \<open>release_year\<close> and
  \<open>rating\<close> (NULL is \<open>None\<close>); every other column (\<open>duration_minutes\<close>, \<open>seasons\<close>,
  the title, ...) travels with the row in \<open>columns\<close>.
\<close>

record ('y, 'c) title =
  release_year :: 'y
  rating :: "string option"
  columns :: 'c

text \<open>A row of \<open>movie_genres\<close> / \<open>tvshow_genres\<close>, with the \<open>rowid\<close> the genre query selects.\<close>

record genre_link =
  rowid :: int
  genre :: "string option"

record country_link =
  country_rowid :: int
  country :: "string option"

text \<open>The SQLite file \<open>netflix.db\<close>: the six tables the script queries.\<close>

record 'c database =
  tbl_movies :: "(py_value, 'c) title list"
  tbl_tvshows :: "(py_value, 'c) title list"
  tbl_movie_genres :: "genre_link list"
  tbl_tvshow_genres :: "genre_link list"
  tbl_movie_countries :: "country_link list"
  tbl_tvshows_countries :: "country_link list"

text \<open>
  A DataFrame: its rows in order, each with its index label. Boolean-mask selection keeps
  the labels of the rows it keeps; \<open>reset_index(drop=True)\<close> renumbers them.
\<close>

type_synonym 'r frame = "(int \<times> 'r) list"

definition range_index :: "'r list \<Rightarrow> 'r frame" where
  "range_index rs = zip (map int [0..<length rs]) rs"

definition load_movies :: "'c database \<Rightarrow> (py_value, 'c) title frame" where
  "load_movies db = range_index (tbl_movies db)"

definition load_tvshows :: "'c database \<Rightarrow> (py_value, 'c) title frame" where
  "load_tvshows db = range_index (tbl_tvshows db)"

section \<open>Data cleaning (lines 106-110)\<close>

text \<open>
  \<open>str.isnumeric\<close>: the string is not empty and every character has a Unicode numeric
  value. Below U+0100 these are the decimal digits \<open>0\<close>..\<open>9\<close>, the superscripts
  U+00B2, U+00B3, U+00B9 and the fractions U+00BC, U+00BD, U+00BE.
\<close>

definition isdecimal_char :: "char \<Rightarrow> bool" where
  "isdecimal_char c = (48 \<le> (of_char c :: nat) \<and> (of_char c :: nat) \<le> 57)"

definition isnumeric_char :: "char \<Rightarrow> bool" where
  "isnumeric_char c =
     (isdecimal_char c \<or> (of_char c :: nat) = 178 \<or> (of_char c :: nat) = 179
      \<or> (of_char c :: nat) = 185 \<or> (of_char c :: nat) = 188
      \<or> (of_char c :: nat) = 189 \<or> (of_char c :: nat) = 190)"

definition str_isnumeric :: "string \<Rightarrow> bool" where
  "str_isnumeric s = (s \<noteq> [] \<and> list_all isnumeric_char s)"

definition str_isdecimal :: "string \<Rightarrow> bool" where
  "str_isdecimal s = (s \<noteq> [] \<and> list_all isdecimal_char s)"

text \<open>\<open>str(n)\<close> for an integer: decimal digits, most significant first, \<open>-\<close> in front
  of a negative number.\<close>

definition digit_char :: "nat \<Rightarrow> char" where
  "digit_char d = char_of (48 + d)"

function show_nat :: "nat \<Rightarrow> string" where
  "show_nat n = (if n < 10 then [digit_char n] else show_nat (n div 10) @ [digit_char (n mod 10)])"
  by pat_completeness auto
termination
  by (relation "measure id") auto

declare show_nat.simps [simp del]

definition show_int :: "int \<Rightarrow> string" where
  "show_int i = (if i < 0 then CHR ''-'' # show_nat (nat (- i)) else show_nat (nat i))"

text \<open>
  \<open>pd.read_sql\<close> types each column when it builds the frame. A column with a text in it
  stays a column of Python objects. A column of integers only is \<open>int64\<close>. Integers
  together with a NULL become \<open>float64\<close>, the NULL being NaN. A column of NULLs only, or
  of no row, holds objects.
\<close>

datatype dtype = Int64 | Float64 | Object

fun is_text :: "py_value \<Rightarrow> bool" where
  "is_text (PyStr s) = True"
| "is_text v = False"

fun is_integer :: "py_value \<Rightarrow> bool" where
  "is_integer (PyInt i) = True"
| "is_integer v = False"

definition column_dtype :: "py_value list \<Rightarrow> dtype" where
  "column_dtype cells =
     (if list_ex is_text cells then Object
      else if list_ex is_integer cells then (if list_ex (\<lambda>v. v = PyNone) cells then Float64 else Int64)
      else Object)"

text \<open>\<open>.astype(str)\<close> on one cell of an \<open>int64\<close> column or of a column of objects.\<close>

definition astype_str :: "py_value \<Rightarrow> string" where
  "astype_str v = (case v of PyInt i \<Rightarrow> show_int i | PyStr s \<Rightarrow> s | PyNone \<Rightarrow> ''None'')"

text \<open>
  \<open>.astype(str).str.isnumeric()\<close> on one cell of a column of the given dtype. A cell of
  a \<open>float64\<close> column reads with a decimal point or an exponent (\<open>2015.0\<close>,
  \<open>1e+16\<close>) or as \<open>nan\<close>, and a string with one of these characters is not numeric.
\<close>

definition cell_isnumeric :: "dtype \<Rightarrow> py_value \<Rightarrow> bool" where
  "cell_isnumeric dt v = (dt \<noteq> Float64 \<and> str_isnumeric (astype_str v))"

text \<open>\<open>df[df["release_year"].astype(str).str.isnumeric()]\<close>\<close>

definition isnumeric_mask :: "(py_value, 'c) title frame \<Rightarrow> (py_value, 'c) title frame" where
  "isnumeric_mask df =
     filter (\<lambda>(i, r). cell_isnumeric (column_dtype (map (\<lambda>(i, r). release_year r) df))
       (release_year r)) df"

text \<open>
  \<open>.astype(int)\<close> on one cell of the masked column. In a column of objects it is
  \<open>int(x)\<close>, stored as a 64-bit integer: \<open>int\<close> of a string of numeric characters
  succeeds only when all of them are decimal digits (leading zeros allowed), and a value
  outside the 64-bit range raises OverflowError. In an \<open>int64\<close> column the integer
  stays as it is, and of a \<open>float64\<close> column no cell is left. The cells that reach this
  function passed \<open>isnumeric_mask\<close>; strings with signs, blanks or underscores never do.
\<close>

definition decimal_value :: "string \<Rightarrow> int" where
  "decimal_value s = foldl (\<lambda>a c. 10 * a + (of_char c - 48)) 0 s"

definition int64 :: "int \<Rightarrow> py_error + int" where
  "int64 n = (if - (2 ^ 63) \<le> n \<and> n < 2 ^ 63 then Inr n else Inl OverflowError)"

definition int_of_value :: "py_value \<Rightarrow> py_error + int" where
  "int_of_value v =
     (case v of
        PyInt i \<Rightarrow> int64 i
      | PyStr s \<Rightarrow> if str_isdecimal s then int64 (decimal_value s) else Inl ValueError
      | PyNone \<Rightarrow> Inl TypeError)"

fun astype_int :: "(py_value, 'c) title frame \<Rightarrow> py_error + (int, 'c) title frame" where
  "astype_int [] = Inr []"
| "astype_int ((i, r) # df) =
     (case int_of_value (release_year r) of
        Inl e \<Rightarrow> Inl e
      | Inr y \<Rightarrow>
          (case astype_int df of
             Inl e \<Rightarrow> Inl e
           | Inr df' \<Rightarrow> Inr ((i, \<lparr>release_year = y, rating = rating r, columns = columns r\<rparr>) # df')))"

text \<open>The Year Normalizer: the mask of line 106, then the conversion of line 109.\<close>

definition year_normalizer :: "(py_value, 'c) title frame \<Rightarrow> py_error + (int, 'c) title frame" where
  "year_normalizer df = astype_int (isnumeric_mask df)"

text \<open>
  Year bounds (lines 115-116). \<open>Series.min()\<close> of an empty column is NaN, here \<open>None\<close>;
  Python's \<open>min(a, b)\<close> is \<open>b if b < a else a\<close> and \<open>max(a, b)\<close> is \<open>b if b > a else a\<close>,
  and every comparison with NaN is false.
\<close>

definition series_min :: "int list \<Rightarrow> int option" where
  "series_min ys = (if ys = [] then None else Some (Min (set ys)))"

definition series_max :: "int list \<Rightarrow> int option" where
  "series_max ys = (if ys = [] then None else Some (Max (set ys)))"

definition nan_less :: "int option \<Rightarrow> int option \<Rightarrow> bool" where
  "nan_less a b = (case (a, b) of (Some x, Some y) \<Rightarrow> x < y | _ \<Rightarrow> False)"

definition py_min :: "int option \<Rightarrow> int option \<Rightarrow> int option" where
  "py_min a b = (if nan_less b a then b else a)"

definition py_max :: "int option \<Rightarrow> int option \<Rightarrow> int option" where
  "py_max a b = (if nan_less a b then b else a)"

definition years :: "(int, 'c) title frame \<Rightarrow> int list" where
  "years df = map (\<lambda>(i, r). release_year r) df"

definition min_year :: "(int, 'c) title frame \<Rightarrow> (int, 'c) title frame \<Rightarrow> int option" where
  "min_year movies tvshows = py_min (series_min (years movies)) (series_min (years tvshows))"

definition max_year :: "(int, 'c) title frame \<Rightarrow> (int, 'c) title frame \<Rightarrow> int option" where
  "max_year movies tvshows = py_max (series_max (years movies)) (series_max (years tvshows))"

section \<open>Sidebar filters (lines 136-165)\<close>

datatype content_type = Both | Movies | TVShows

text \<open>What the five sidebar widgets return. A multiselect returns the list of the
  chosen option labels, which are strings.\<close>

record filter_spec =
  year_range :: "int \<times> int"
  content_type :: content_type
  genre_filter :: "string list"
  country_filter :: "string list"
  rating_filter :: "string list"

section \<open>Applying the filters (lines 170-222)\<close>

text \<open>\<open>df[df["release_year"].between(lo, hi)]\<close>: both bounds inclusive.\<close>

definition between :: "int \<Rightarrow> int \<Rightarrow> (int, 'c) title frame \<Rightarrow> (int, 'c) title frame" where
  "between lo hi df = filter (\<lambda>(i, r). lo \<le> release_year r \<and> release_year r \<le> hi) df"

text \<open>\<open>df[df["rating"].isin(rating_filter)]\<close>: a missing rating is no member of a list
  of strings.\<close>

definition rating_isin :: "string list \<Rightarrow> (int, 'c) title frame \<Rightarrow> (int, 'c) title frame" where
  "rating_isin rs df =
     filter (\<lambda>(i, r). case rating r of None \<Rightarrow> False | Some s \<Rightarrow> s \<in> set rs) df"

definition reset_index :: "'r frame \<Rightarrow> 'r frame" where
  "reset_index df = range_index (map snd df)"

text \<open>\<open>SELECT DISTINCT rowid FROM <table> WHERE genre IN (?, ..., ?)\<close>, as a list.
  A NULL genre is in no list.\<close>

definition select_rowids :: "string list \<Rightarrow> genre_link list \<Rightarrow> int list" where
  "select_rowids gs links =
     remdups (map rowid
       (filter (\<lambda>l. case genre l of None \<Rightarrow> False | Some g \<Rightarrow> g \<in> set gs) links))"

text \<open>\<open>df[df.index.isin(ids)]\<close>\<close>

definition index_isin :: "int list \<Rightarrow> 'r frame \<Rightarrow> 'r frame" where
  "index_isin ids df = filter (\<lambda>(i, r). i \<in> set ids) df"

text \<open>Lines 214-217 (and 219-222): \<open>df[df.index.isin(ids)] if ids else df.iloc[0:0]\<close>.\<close>

definition keep_ids :: "int list \<Rightarrow> 'r frame \<Rightarrow> 'r frame" where
  "keep_ids ids df = (if ids \<noteq> [] then index_isin ids df else [])"

text \<open>
  The filter block works on the pair \<open>(movies_f, tvshows_f)\<close>; each statement group of
  the script is one function on the pair.
\<close>

type_synonym 'c frames = "(int, 'c) title frame \<times> (int, 'c) title frame"

text \<open>Lines 170-171: \<open>between(*year_range)\<close> on both tables.\<close>

definition year_block :: "int \<times> int \<Rightarrow> 'c frames \<Rightarrow> 'c frames" where
  "year_block yr p = (between (fst yr) (snd yr) (fst p), between (fst yr) (snd yr) (snd p))"

text \<open>Lines 174-176: \<open>if rating_filter:\<close>\<close>

definition rating_block :: "string list \<Rightarrow> 'c frames \<Rightarrow> 'c frames" where
  "rating_block rs p = (if rs \<noteq> [] then (rating_isin rs (fst p), rating_isin rs (snd p)) else p)"

text \<open>Lines 179-182: \<open>iloc[0:0]\<close> on the table of the category that is not shown.\<close>

definition content_block :: "content_type \<Rightarrow> 'c frames \<Rightarrow> 'c frames" where
  "content_block ct p =
     (if ct = Movies then (fst p, []) else if ct = TVShows then ([], snd p) else p)"

text \<open>Lines 183-184\<close>

definition reset_block :: "'c frames \<Rightarrow> 'c frames" where
  "reset_block p = (reset_index (fst p), reset_index (snd p))"

text \<open>Lines 189-222: \<open>if genre_filter:\<close>\<close>

definition genre_block :: "'c database \<Rightarrow> string list \<Rightarrow> 'c frames \<Rightarrow> 'c frames" where
  "genre_block db gs p =
     (if gs \<noteq> [] then
        (let movie_ids = select_rowids gs (tbl_movie_genres db);
             tv_ids = select_rowids gs (tbl_tvshow_genres db)
         in (keep_ids movie_ids (fst p), keep_ids tv_ids (snd p)))
      else p)"

text \<open>Lines 170-222 on the cleaned \<open>movies\<close> and \<open>tvshows\<close>; the result is
  \<open>(movies_f, tvshows_f)\<close>.\<close>

definition apply_filters ::
  "'c database \<Rightarrow> filter_spec \<Rightarrow> (int, 'c) title frame \<Rightarrow> (int, 'c) title frame \<Rightarrow> 'c frames" where
  "apply_filters db fs movies tvshows =
     genre_block db (genre_filter fs)
       (reset_block
         (content_block (content_type fs)
           (rating_block (rating_filter fs)
             (year_block (year_range fs) (movies, tvshows)))))"

section \<open>KPI metrics (lines 231-234)\<close>

definition kpi_metrics :: "'r frame \<Rightarrow> 'r frame \<Rightarrow> nat \<times> nat \<times> nat" where
  "kpi_metrics movies_f tvshows_f =
     (length movies_f, length tvshows_f, length movies_f + length tvshows_f)"

section \<open>Year-wise trend (lines 261-269)\<close>

text \<open>\<open>df.groupby("release_year").size().reset_index(name=...)\<close>: one row per year that
  occurs, in ascending order of the year, with the number of rows of that year.\<close>

definition groupby_year_size :: "(int, 'c) title frame \<Rightarrow> (int \<times> nat) list" where
  "groupby_year_size df =
     map (\<lambda>y. (y, count_list (years df) y)) (sort (remdups (years df)))"

text \<open>
  \<open>pd.merge(left, right, on="release_year", how="outer")\<close>: the keys of either side,
  sorted; for each key every pairing of a left row with a right row of that key, and
  where one side has no row of the key its column is NaN (\<open>None\<close>).
\<close>

definition matches :: "int \<Rightarrow> (int \<times> nat) list \<Rightarrow> nat list" where
  "matches k tab = map snd (filter (\<lambda>(k', n). k' = k) tab)"

definition merge_key :: "(int \<times> nat) list \<Rightarrow> (int \<times> nat) list \<Rightarrow> int
     \<Rightarrow> (int \<times> nat option \<times> nat option) list" where
  "merge_key left right k =
     (if matches k left = [] then map (\<lambda>r. (k, None, Some r)) (matches k right)
      else if matches k right = [] then map (\<lambda>l. (k, Some l, None)) (matches k left)
      else concat (map (\<lambda>l. map (\<lambda>r. (k, Some l, Some r)) (matches k right)) (matches k left)))"

definition merge_outer :: "(int \<times> nat) list \<Rightarrow> (int \<times> nat) list
     \<Rightarrow> (int \<times> nat option \<times> nat option) list" where
  "merge_outer left right =
     concat (map (merge_key left right) (sort (remdups (map fst left @ map fst right))))"

text \<open>\<open>.fillna(0)\<close>\<close>

definition fillna0 :: "(int \<times> nat option \<times> nat option) list \<Rightarrow> (int \<times> nat \<times> nat) list" where
  "fillna0 rows =
     map (\<lambda>(k, a, b). (k, case a of None \<Rightarrow> 0 | Some n \<Rightarrow> n, case b of None \<Rightarrow> 0 | Some n \<Rightarrow> n)) rows"

definition trend_df :: "(int, 'c) title frame \<Rightarrow> (int, 'c) title frame \<Rightarrow> (int \<times> nat \<times> nat) list" where
  "trend_df movies_f tvshows_f =
     fillna0 (merge_outer (groupby_year_size movies_f) (groupby_year_size tvshows_f))"

section \<open>Genre and country popularity (lines 50-91 and 342-395)\<close>

text \<open>
  \<open>SELECT label, COUNT(*) AS total FROM <table> GROUP BY label ORDER BY total DESC\<close>
  in SQLite. \<open>GROUP BY\<close> forms one row per label of the table (NULL is a group of its
  own) and yields the groups in ascending order of the label: NULL first, texts by
  their code points. \<open>ORDER BY total DESC\<close> then puts the larger totals first. SQL
  leaves the order of rows with equal totals open; SQLite returns them in the reverse
  of the order in which the grouping yielded them, that is in descending order of the
  label.
\<close>

definition group_by_count :: "'a::linorder list \<Rightarrow> ('a \<times> nat) list" where
  "group_by_count labels = map (\<lambda>l. (l, count_list labels l)) (sort (remdups labels))"

definition order_by_total_desc :: "('a \<times> nat) list \<Rightarrow> ('a \<times> nat) list" where
  "order_by_total_desc rows = rev (sort_key snd rows)"

definition group_count_desc :: "'a::linorder list \<Rightarrow> ('a \<times> nat) list" where
  "group_count_desc labels = order_by_total_desc (group_by_count labels)"

definition load_movie_genres :: "'c database \<Rightarrow> (string option \<times> nat) list" where
  "load_movie_genres db = group_count_desc (map genre (tbl_movie_genres db))"

definition load_tv_genres :: "'c database \<Rightarrow> (string option \<times> nat) list" where
  "load_tv_genres db = group_count_desc (map genre (tbl_tvshow_genres db))"

definition load_movie_countries :: "'c database \<Rightarrow> (string option \<times> nat) list" where
  "load_movie_countries db = group_count_desc (map country (tbl_movie_countries db))"

definition load_tv_countries :: "'c database \<Rightarrow> (string option \<times> nat) list" where
  "load_tv_countries db = group_count_desc (map country (tbl_tvshows_countries db))"

text \<open>\<open>df.head(10)\<close>\<close>

definition head10 :: "'a list \<Rightarrow> 'a list" where
  "head10 df = take 10 df"

section \<open>One run of the script\<close>

text \<open>What one run of the script hands to the page: the filtered tables, the three
  KPI numbers, the trend table and the four top-10 tables.\<close>

record 'c page =
  movies_f :: "(int, 'c) title frame"
  tvshows_f :: "(int, 'c) title frame"
  kpis :: "nat \<times> nat \<times> nat"
  trend :: "(int \<times> nat \<times> nat) list"
  fig_movie_genre :: "(string option \<times> nat) list"
  fig_tv_genre :: "(string option \<times> nat) list"
  fig_movie_country :: "(string option \<times> nat) list"
  fig_tv_country :: "(string option \<times> nat) list"

text \<open>
  The script from the load to the charts, for the database and the widget values of one
  run. Line 106 and 107 mask both tables before line 109 and 110 convert them, so a
  failing conversion of \<open>movies\<close> is raised first.
\<close>

definition run :: "'c database \<Rightarrow> filter_spec \<Rightarrow> py_error + 'c page" where
  "run db fs =
     (let movies = isnumeric_mask (load_movies db);
          tvshows = isnumeric_mask (load_tvshows db)
      in case astype_int movies of
           Inl e \<Rightarrow> Inl e
         | Inr movies \<Rightarrow>
             (case astype_int tvshows of
                Inl e \<Rightarrow> Inl e
              | Inr tvshows \<Rightarrow>
                  (let (m_f, t_f) = apply_filters db fs movies tvshows
                   in Inr \<lparr>movies_f = m_f, tvshows_f = t_f,
                           kpis = kpi_metrics m_f t_f,
                           trend = trend_df m_f t_f,
                           fig_movie_genre = head10 (load_movie_genres db),
                           fig_tv_genre = head10 (load_tv_genres db),
                           fig_movie_country = head10 (load_movie_countries db),
                           fig_tv_country = head10 (load_tv_countries db)\<rparr>)))"

section \<open>A small database and widget values\<close>

definition sample_db :: "string database" where
  "sample_db =
     \<lparr>tbl_movies =
        [\<lparr>release_year = PyStr ''2000'', rating = Some ''PG'', columns = ''A''\<rparr>,
         \<lparr>release_year = PyInt 2015, rating = Some ''R'', columns = ''B''\<rparr>,
         \<lparr>release_year = PyStr ''2016'', rating = None, columns = ''C''\<rparr>,
         \<lparr>release_year = PyStr ''unknown'', rating = Some ''PG'', columns = ''D''\<rparr>],
      tbl_tvshows =
        [\<lparr>release_year = PyStr ''2016'', rating = Some ''TV-MA'', columns = ''T''\<rparr>,
         \<lparr>release_year = PyInt 2019, rating = None, columns = ''U''\<rparr>],
      tbl_movie_genres =
        [\<lparr>rowid = 1, genre = Some ''Dramas''\<rparr>,
         \<lparr>rowid = 2, genre = Some ''Comedies''\<rparr>,
         \<lparr>rowid = 0, genre = Some ''Comedies''\<rparr>],
      tbl_tvshow_genres =
        [\<lparr>rowid = 0, genre = Some ''Dramas''\<rparr>,
         \<lparr>rowid = 1, genre = Some ''Anime''\<rparr>],
      tbl_movie_countries =
        [\<lparr>country_rowid = 0, country = Some ''India''\<rparr>,
         \<lparr>country_rowid = 1, country = Some ''United States''\<rparr>,
         \<lparr>country_rowid = 2, country = Some ''United States''\<rparr>],
      tbl_tvshows_countries = [\<lparr>country_rowid = 0, country = Some ''Japan''\<rparr>]\<rparr>"

text \<open>The cleaned tables of \<open>sample_db\<close>: row \<open>D\<close> is gone, the labels of the others stay.\<close>

definition sample_movies :: "(int, string) title frame" where
  "sample_movies =
     [(0, \<lparr>release_year = 2000, rating = Some ''PG'', columns = ''A''\<rparr>),
      (1, \<lparr>release_year = 2015, rating = Some ''R'', columns = ''B''\<rparr>),
      (2, \<lparr>release_year = 2016, rating = None, columns = ''C''\<rparr>)]"

definition sample_tvshows :: "(int, string) title frame" where
  "sample_tvshows =
     [(0, \<lparr>release_year = 2016, rating = Some ''TV-MA'', columns = ''T''\<rparr>),
      (1, \<lparr>release_year = 2019, rating = None, columns = ''U''\<rparr>)]"

definition sample_spec :: filter_spec where
  "sample_spec =
     \<lparr>year_range = (2010, 2019), content_type = Both, genre_filter = [],
      country_filter = [], rating_filter = []\<rparr>"

text \<open>A second choice of year range, content type and ratings, and the pages of the two
  runs on \<open>sample_db\<close>.\<close>

definition sample_spec_pg :: filter_spec where
  "sample_spec_pg =
     \<lparr>year_range = (2000, 2005), content_type = Movies, genre_filter = [],
      country_filter = [], rating_filter = [''PG'']\<rparr>"

definition sample_page :: "string page" where
  "sample_page =
     \<lparr>movies_f =
        [(0, \<lparr>release_year = 2015, rating = Some ''R'', columns = ''B''\<rparr>),
         (1, \<lparr>release_year = 2016, rating = None, columns = ''C''\<rparr>)],
      tvshows_f =
        [(0, \<lparr>release_year = 2016, rating = Some ''TV-MA'', columns = ''T''\<rparr>),
         (1, \<lparr>release_year = 2019, rating = None, columns = ''U''\<rparr>)],
      kpis = (2, 2, 4),
      trend = [(2015, 1, 0), (2016, 1, 1), (2019, 0, 1)],
      fig_movie_genre = [(Some ''Comedies'', 2), (Some ''Dramas'', 1)],
      fig_tv_genre = [(Some ''Dramas'', 1), (Some ''Anime'', 1)],
      fig_movie_country = [(Some ''United States'', 2), (Some ''India'', 1)],
      fig_tv_country = [(Some ''Japan'', 1)]\<rparr>"

definition sample_page_pg :: "string page" where
  "sample_page_pg =
     \<lparr>movies_f = [(0, \<lparr>release_year = 2000, rating = Some ''PG'', columns = ''A''\<rparr>)],
      tvshows_f = [],
      kpis = (1, 0, 1),
      trend = [(2000, 1, 0)],
      fig_movie_genre = [(Some ''Comedies'', 2), (Some ''Dramas'', 1)],
      fig_tv_genre = [(Some ''Dramas'', 1), (Some ''Anime'', 1)],
      fig_movie_country = [(Some ''United States'', 2), (Some ''India'', 1)],
      fig_tv_country = [(Some ''Japan'', 1)]\<rparr>"

text \<open>A movie table with a year that is the one character U+00BD (the fraction one
  half), one of integer years with a NULL, and one with a year of twenty digits.\<close>

definition fraction_db :: "string database" where
  "fraction_db =
     \<lparr>tbl_movies =
        [\<lparr>release_year = PyStr ''2015'', rating = Some ''R'', columns = ''B''\<rparr>,
         \<lparr>release_year = PyStr [CHR 0xBD], rating = Some ''PG'', columns = ''H''\<rparr>],
      tbl_tvshows = [],
      tbl_movie_genres = [],
      tbl_tvshow_genres = [],
      tbl_movie_countries = [],
      tbl_tvshows_countries = []\<rparr>"

definition null_year_db :: "string database" where
  "null_year_db =
     \<lparr>tbl_movies =
        [\<lparr>release_year = PyInt 2015, rating = Some ''R'', columns = ''B''\<rparr>,
         \<lparr>release_year = PyNone, rating = Some ''PG'', columns = ''N''\<rparr>],
      tbl_tvshows = [],
      tbl_movie_genres = [],
      tbl_tvshow_genres = [],
      tbl_movie_countries = [],
      tbl_tvshows_countries = []\<rparr>"

definition long_year_db :: "string database" where
  "long_year_db =
     \<lparr>tbl_movies =
        [\<lparr>release_year = PyStr ''2015'', rating = Some ''R'', columns = ''B''\<rparr>,
         \<lparr>release_year = PyStr ''99999999999999999999'', rating = Some ''PG'', columns = ''L''\<rparr>],
      tbl_tvshows = [],
      tbl_movie_genres = [],
      tbl_tvshow_genres = [],
      tbl_movie_countries = [],
      tbl_tvshows_countries = []\<rparr>"

text \<open>The widget values of \<open>sample_spec\<close> with the genre \<open>Dramas\<close> selected.\<close>

definition sample_spec_dramas :: filter_spec where
  "sample_spec_dramas =
     \<lparr>year_range = (2010, 2019), content_type = Both, genre_filter = [''Dramas''],
      country_filter = [], rating_filter = []\<rparr>"

text \<open>Filtered tables with years that repeat: three movies of 2016 and one of 2015, two
  TV shows of 2019 and one of 2016.\<close>

definition repeat_movies :: "(int, string) title frame" where
  "repeat_movies =
     [(0, \<lparr>release_year = 2016, rating = Some ''R'', columns = ''E''\<rparr>),
      (1, \<lparr>release_year = 2015, rating = Some ''PG'', columns = ''F''\<rparr>),
      (2, \<lparr>release_year = 2016, rating = None, columns = ''G''\<rparr>),
      (3, \<lparr>release_year = 2016, rating = Some ''R'', columns = ''H''\<rparr>)]"

definition repeat_tvshows :: "(int, string) title frame" where
  "repeat_tvshows =
     [(0, \<lparr>release_year = 2019, rating = Some ''TV-MA'', columns = ''V''\<rparr>),
      (1, \<lparr>release_year = 2016, rating = None, columns = ''W''\<rparr>),
      (2, \<lparr>release_year = 2019, rating = Some ''TV-14'', columns = ''X''\<rparr>)]"

text \<open>The scenario of the year filter: rows of the years 2014, 2015, 2018 and 2020.\<close>

definition scenario_spec :: filter_spec where
  "scenario_spec =
     \<lparr>year_range = (2015, 2018), content_type = Both, genre_filter = [],
      country_filter = [], rating_filter = []\<rparr>"

definition scenario_table :: "(int, string) title frame" where
  "scenario_table =
     [(0, \<lparr>release_year = 2014, rating = Some ''PG'', columns = ''W''\<rparr>),
      (1, \<lparr>release_year = 2015, rating = Some ''R'', columns = ''X''\<rparr>),
      (2, \<lparr>release_year = 2018, rating = None, columns = ''Y''\<rparr>),
      (3, \<lparr>release_year = 2020, rating = Some ''PG'', columns = ''Z''\<rparr>)]"

section \<open>Frames and the filter blocks\<close>

lemma rows_range_index: "map snd (range_index rs) = rs"
  by (simp add: range_index_def)

lemma labels_range_index: "map fst (range_index rs) = map int [0..<length rs]"
  by (simp add: range_index_def)

lemma length_range_index: "length (range_index rs) = length rs"
  by (simp add: range_index_def)

lemma rows_reset_index: "map snd (reset_index df) = map snd df"
  by (simp add: reset_index_def rows_range_index)

lemma reset_index_Nil: "reset_index [] = []"
  by (simp add: reset_index_def range_index_def)

lemma keep_ids_subset: "set (keep_ids ids df) \<subseteq> set df"
  by (auto simp: keep_ids_def index_isin_def)

lemma keep_ids_Nil: "keep_ids ids [] = []"
  by (simp add: keep_ids_def index_isin_def)

lemma rows_of_reset: "snd ` set (reset_index df) = snd ` set df"
  using rows_reset_index [of df] by (metis set_map)

lemma genre_block_rows_fst: "set (fst (genre_block db gs p)) \<subseteq> set (fst p)"
  using keep_ids_subset by (auto simp: genre_block_def Let_def)

lemma genre_block_rows_snd: "set (snd (genre_block db gs p)) \<subseteq> set (snd p)"
  using keep_ids_subset by (auto simp: genre_block_def Let_def)

lemma content_block_rows_fst: "set (fst (content_block ct p)) \<subseteq> set (fst p)"
  by (simp add: content_block_def)

lemma content_block_rows_snd: "set (snd (content_block ct p)) \<subseteq> set (snd p)"
  by (simp add: content_block_def)

lemma rating_block_rows_fst: "set (fst (rating_block rs p)) \<subseteq> set (fst p)"
  by (auto simp: rating_block_def rating_isin_def)

lemma rating_block_rows_snd: "set (snd (rating_block rs p)) \<subseteq> set (snd p)"
  by (auto simp: rating_block_def rating_isin_def)

text \<open>Every row of a filtered table is a row of the table after the blocks before the
  renumbering; only its label may differ.\<close>

lemma apply_filters_rows_fst:
  "snd ` set (fst (apply_filters db fs movies tvshows))
     \<subseteq> snd ` set (fst (content_block (content_type fs) (rating_block (rating_filter fs)
            (year_block (year_range fs) (movies, tvshows)))))"
proof -
  let ?p = "content_block (content_type fs) (rating_block (rating_filter fs)
            (year_block (year_range fs) (movies, tvshows)))"
  have "snd ` set (fst (apply_filters db fs movies tvshows)) \<subseteq> snd ` set (fst (reset_block ?p))"
    unfolding apply_filters_def using genre_block_rows_fst by (rule image_mono)
  also have "\<dots> = snd ` set (fst ?p)"
    by (simp add: reset_block_def rows_of_reset)
  finally show ?thesis .
qed

lemma apply_filters_rows_snd:
  "snd ` set (snd (apply_filters db fs movies tvshows))
     \<subseteq> snd ` set (snd (content_block (content_type fs) (rating_block (rating_filter fs)
            (year_block (year_range fs) (movies, tvshows)))))"
proof -
  let ?p = "content_block (content_type fs) (rating_block (rating_filter fs)
            (year_block (year_range fs) (movies, tvshows)))"
  have "snd ` set (snd (apply_filters db fs movies tvshows)) \<subseteq> snd ` set (snd (reset_block ?p))"
    unfolding apply_filters_def using genre_block_rows_snd by (rule image_mono)
  also have "\<dots> = snd ` set (snd ?p)"
    by (simp add: reset_block_def rows_of_reset)
  finally show ?thesis .
qed

lemma between_iff:
  "(i, r) \<in> set (between lo hi df) \<longleftrightarrow> (i, r) \<in> set df \<and> lo \<le> release_year r \<and> release_year r \<le> hi"
  by (auto simp: between_def)

lemma year_block_rows_fst:
  "r \<in> snd ` set (fst (year_block yr p)) \<Longrightarrow> fst yr \<le> release_year r \<and> release_year r \<le> snd yr"
  by (auto simp: year_block_def between_def)

lemma year_block_rows_snd:
  "r \<in> snd ` set (snd (year_block yr p)) \<Longrightarrow> fst yr \<le> release_year r \<and> release_year r \<le> snd yr"
  by (auto simp: year_block_def between_def)

lemma filtered_movie_in_range:
  assumes "r \<in> snd ` set (fst (apply_filters db fs movies tvshows))"
  shows "fst (year_range fs) \<le> release_year r \<and> release_year r \<le> snd (year_range fs)"
proof -
  let ?y = "year_block (year_range fs) (movies, tvshows)"
  from assms apply_filters_rows_fst
  have "r \<in> snd ` set (fst (content_block (content_type fs) (rating_block (rating_filter fs) ?y)))"
    by blast
  with content_block_rows_fst have "r \<in> snd ` set (fst (rating_block (rating_filter fs) ?y))"
    by blast
  with rating_block_rows_fst have "r \<in> snd ` set (fst ?y)"
    by blast
  then show ?thesis by (rule year_block_rows_fst)
qed

lemma filtered_tvshow_in_range:
  assumes "r \<in> snd ` set (snd (apply_filters db fs movies tvshows))"
  shows "fst (year_range fs) \<le> release_year r \<and> release_year r \<le> snd (year_range fs)"
proof -
  let ?y = "year_block (year_range fs) (movies, tvshows)"
  from assms apply_filters_rows_snd
  have "r \<in> snd ` set (snd (content_block (content_type fs) (rating_block (rating_filter fs) ?y)))"
    by blast
  with content_block_rows_snd have "r \<in> snd ` set (snd (rating_block (rating_filter fs) ?y))"
    by blast
  with rating_block_rows_snd have "r \<in> snd ` set (snd ?y)"
    by blast
  then show ?thesis by (rule year_block_rows_snd)
qed

section \<open>The sample data\<close>

lemma sample_movies_clean: "year_normalizer (load_movies sample_db) = Inr sample_movies"
  by code_simp

lemma sample_tvshows_clean: "year_normalizer (load_tvshows sample_db) = Inr sample_tvshows"
  by code_simp

section \<open>KPI metrics\<close>

text \<open>
  C6. For every pair of filtered tables the KPI block yields three numbers: the number
  of rows of the filtered movies, the number of rows of the filtered TV shows and a
  third that is the sum of the first two. The function is total: there is a result for
  every pair.
\<close>

theorem kpi_metrics_counts:
  "\<exists>k1 k2 k3. kpi_metrics m_f t_f = (k1, k2, k3)
      \<and> k1 = length m_f \<and> k2 = length t_f \<and> k3 = k1 + k2"
  by (simp add: kpi_metrics_def)

section \<open>Content type\<close>

text \<open>
  C5. With content type \<open>Movies\<close> the filtered TV-show table has no rows, whatever the
  other widgets and the data are, and with \<open>TVShows\<close> the filtered movie table has none.
  The table is still there: \<open>apply_filters\<close> always returns both tables.
\<close>

theorem excluded_category_empty:
  "(content_type fs = Movies \<longrightarrow> snd (apply_filters db fs movies tvshows) = [])
   \<and> (content_type fs = TVShows \<longrightarrow> fst (apply_filters db fs movies tvshows) = [])"
  by (simp add: apply_filters_def content_block_def reset_block_def reset_index_Nil
      genre_block_def Let_def keep_ids_Nil)

theorem excluded_category_empty_witness:
  "content_type (sample_spec\<lparr>content_type := Movies\<rparr>) = Movies
   \<and> snd (apply_filters sample_db (sample_spec\<lparr>content_type := Movies\<rparr>)
        sample_movies sample_tvshows) = []
   \<and> content_type (sample_spec\<lparr>content_type := TVShows\<rparr>) = TVShows
   \<and> fst (apply_filters sample_db (sample_spec\<lparr>content_type := TVShows\<rparr>)
        sample_movies sample_tvshows) = []"
  using excluded_category_empty [of "sample_spec\<lparr>content_type := Movies\<rparr>" sample_db
      sample_movies sample_tvshows]
    excluded_category_empty [of "sample_spec\<lparr>content_type := TVShows\<rparr>" sample_db
      sample_movies sample_tvshows]
  by simp

section \<open>Genre filter without a match\<close>

text \<open>
  C2. When genres are selected and the query for the selected genres returns no rowid
  for a table, the filtered table is empty: \<open>movies_f\<close> for the movie query, \<open>tvshows_f\<close>
  for the TV-show query.
\<close>

theorem no_genre_match_empty:
  "genre_filter fs \<noteq> [] \<Longrightarrow>
   (select_rowids (genre_filter fs) (tbl_movie_genres db) = []
      \<longrightarrow> fst (apply_filters db fs movies tvshows) = [])
   \<and> (select_rowids (genre_filter fs) (tbl_tvshow_genres db) = []
      \<longrightarrow> snd (apply_filters db fs movies tvshows) = [])"
  by (simp add: apply_filters_def genre_block_def Let_def keep_ids_def)

theorem no_genre_match_empty_witness:
  "genre_filter (sample_spec\<lparr>genre_filter := [''Anime'']\<rparr>) \<noteq> []
   \<and> select_rowids [''Anime''] (tbl_movie_genres sample_db) = []
   \<and> fst (apply_filters sample_db (sample_spec\<lparr>genre_filter := [''Anime'']\<rparr>)
        sample_movies sample_tvshows) = []
   \<and> genre_filter (sample_spec\<lparr>genre_filter := [''Comedies'']\<rparr>) \<noteq> []
   \<and> select_rowids [''Comedies''] (tbl_tvshow_genres sample_db) = []
   \<and> snd (apply_filters sample_db (sample_spec\<lparr>genre_filter := [''Comedies'']\<rparr>)
        sample_movies sample_tvshows) = []
   \<and> fst (apply_filters sample_db sample_spec sample_movies sample_tvshows) \<noteq> []
   \<and> snd (apply_filters sample_db sample_spec sample_movies sample_tvshows) \<noteq> []"
proof -
  let ?A = "sample_spec\<lparr>genre_filter := [''Anime'']\<rparr>"
  let ?C = "sample_spec\<lparr>genre_filter := [''Comedies'']\<rparr>"
  have gA: "genre_filter ?A \<noteq> []" and gC: "genre_filter ?C \<noteq> []"
    by simp_all
  have m: "select_rowids [''Anime''] (tbl_movie_genres sample_db) = []"
    by (simp add: select_rowids_def sample_db_def)
  have t: "select_rowids [''Comedies''] (tbl_tvshow_genres sample_db) = []"
    by (simp add: select_rowids_def sample_db_def)
  have um: "fst (apply_filters sample_db sample_spec sample_movies sample_tvshows) \<noteq> []"
    by code_simp
  have ut: "snd (apply_filters sample_db sample_spec sample_movies sample_tvshows) \<noteq> []"
    by code_simp
  from no_genre_match_empty [OF gA, of sample_db sample_movies sample_tvshows] m
  have em: "fst (apply_filters sample_db ?A sample_movies sample_tvshows) = []"
    by simp
  from no_genre_match_empty [OF gC, of sample_db sample_movies sample_tvshows] t
  have et: "snd (apply_filters sample_db ?C sample_movies sample_tvshows) = []"
    by simp
  show ?thesis
    by (rule conjI [OF gA conjI [OF m conjI [OF em conjI [OF gC conjI [OF t conjI [OF et
        conjI [OF um ut]]]]]]])
qed

section \<open>Year range\<close>

text \<open>
  C4. A row survives the year predicate exactly when its \<open>release_year\<close> lies between
  the lower and the upper bound of \<open>year_range\<close>, both included; no row outside the
  range is in either filtered table; and the filter with \<open>year_range = (2015, 2018)\<close>,
  content type \<open>Both\<close>, no ratings and no genres, on a table with rows of the years
  2014, 2015, 2018 and 2020 (as movies or as TV shows), leaves the rows of 2015 and 2018.
\<close>

theorem year_range_inclusive:
  "((i, r) \<in> set (between lo hi df)
      \<longleftrightarrow> (i, r) \<in> set df \<and> lo \<le> release_year r \<and> release_year r \<le> hi)
   \<and> (\<forall>x \<in> snd ` set (fst (apply_filters db fs movies tvshows))
             \<union> snd ` set (snd (apply_filters db fs movies tvshows)).
         fst (year_range fs) \<le> release_year x \<and> release_year x \<le> snd (year_range fs))
   \<and> (release_year r1 = 2014 \<and> release_year r2 = 2015 \<and> release_year r3 = 2018
        \<and> release_year r4 = 2020 \<longrightarrow>
        map snd (fst (apply_filters db
          \<lparr>year_range = (2015, 2018), content_type = Both, genre_filter = [],
           country_filter = cs, rating_filter = []\<rparr>
          [(i1, r1), (i2, r2), (i3, r3), (i4, r4)] other)) = [r2, r3]
        \<and> map snd (snd (apply_filters db
          \<lparr>year_range = (2015, 2018), content_type = Both, genre_filter = [],
           country_filter = cs, rating_filter = []\<rparr>
          other [(i1, r1), (i2, r2), (i3, r3), (i4, r4)])) = [r2, r3])"
proof (intro conjI)
  show "(i, r) \<in> set (between lo hi df)
      \<longleftrightarrow> (i, r) \<in> set df \<and> lo \<le> release_year r \<and> release_year r \<le> hi"
    by (rule between_iff)
next
  show "\<forall>x \<in> snd ` set (fst (apply_filters db fs movies tvshows))
             \<union> snd ` set (snd (apply_filters db fs movies tvshows)).
         fst (year_range fs) \<le> release_year x \<and> release_year x \<le> snd (year_range fs)"
  proof
    fix x
    assume "x \<in> snd ` set (fst (apply_filters db fs movies tvshows))
             \<union> snd ` set (snd (apply_filters db fs movies tvshows))"
    then consider "x \<in> snd ` set (fst (apply_filters db fs movies tvshows))"
      | "x \<in> snd ` set (snd (apply_filters db fs movies tvshows))"
      by (auto simp only: Un_iff)
    then show "fst (year_range fs) \<le> release_year x \<and> release_year x \<le> snd (year_range fs)"
    proof cases
      case 1
      then show ?thesis by (rule filtered_movie_in_range)
    next
      case 2
      then show ?thesis by (rule filtered_tvshow_in_range)
    qed
  qed
next
  show "release_year r1 = 2014 \<and> release_year r2 = 2015 \<and> release_year r3 = 2018
        \<and> release_year r4 = 2020 \<longrightarrow>
        map snd (fst (apply_filters db
          \<lparr>year_range = (2015, 2018), content_type = Both, genre_filter = [],
           country_filter = cs, rating_filter = []\<rparr>
          [(i1, r1), (i2, r2), (i3, r3), (i4, r4)] other)) = [r2, r3]
        \<and> map snd (snd (apply_filters db
          \<lparr>year_range = (2015, 2018), content_type = Both, genre_filter = [],
           country_filter = cs, rating_filter = []\<rparr>
          other [(i1, r1), (i2, r2), (i3, r3), (i4, r4)])) = [r2, r3]"
    by (simp add: apply_filters_def genre_block_def reset_block_def content_block_def
        rating_block_def year_block_def rows_reset_index between_def)
qed

theorem year_range_inclusive_witness:
  "(1, \<lparr>release_year = 2015, rating = Some ''R'', columns = ''X''\<rparr>)
      \<in> set (between 2015 2018 scenario_table)
   \<and> (0, \<lparr>release_year = 2014, rating = Some ''PG'', columns = ''W''\<rparr>)
      \<notin> set (between 2015 2018 scenario_table)
   \<and> map snd (fst (apply_filters sample_db scenario_spec scenario_table sample_tvshows))
      = [\<lparr>release_year = 2015, rating = Some ''R'', columns = ''X''\<rparr>,
         \<lparr>release_year = 2018, rating = None, columns = ''Y''\<rparr>]
   \<and> map snd (snd (apply_filters sample_db scenario_spec sample_tvshows scenario_table))
      = [\<lparr>release_year = 2015, rating = Some ''R'', columns = ''X''\<rparr>,
         \<lparr>release_year = 2018, rating = None, columns = ''Y''\<rparr>]"
proof -
  let ?W = "\<lparr>release_year = 2014, rating = Some ''PG'', columns = ''W''\<rparr>"
  let ?X = "\<lparr>release_year = 2015, rating = Some ''R'', columns = ''X''\<rparr>"
  let ?Y = "\<lparr>release_year = 2018, rating = None, columns = ''Y''\<rparr>"
  let ?Z = "\<lparr>release_year = 2020, rating = Some ''PG'', columns = ''Z''\<rparr>"
  have tab: "scenario_table = [(0, ?W), (1, ?X), (2, ?Y), (3, ?Z)]"
    by (simp add: scenario_table_def)
  have ys: "release_year ?W = (2014::int) \<and> release_year ?X = (2015::int)
      \<and> release_year ?Y = (2018::int) \<and> release_year ?Z = (2020::int)"
    by simp
  note T = year_range_inclusive [of _ _ 2015 2018 scenario_table sample_db scenario_spec
      scenario_table sample_tvshows ?W ?X ?Y ?Z "[]" 0 1 2 3 sample_tvshows]
  have a: "(1, ?X) \<in> set (between 2015 2018 scenario_table)"
    using T [of 1 ?X, THEN conjunct1] by (simp add: tab)
  have b: "(0, ?W) \<notin> set (between 2015 2018 scenario_table)"
    using T [of 0 ?W, THEN conjunct1] by simp
  have c: "map snd (fst (apply_filters sample_db scenario_spec scenario_table sample_tvshows))
        = [?X, ?Y]
      \<and> map snd (snd (apply_filters sample_db scenario_spec sample_tvshows scenario_table))
        = [?X, ?Y]"
    unfolding tab scenario_spec_def
    by (rule T [of 0 ?W, THEN conjunct2, THEN conjunct2, THEN mp, OF ys])
  show ?thesis
    by (rule conjI [OF a conjI [OF b c]])
qed

section \<open>The country widget\<close>

text \<open>
  C9. Two runs on the same database whose widget values agree on the year range, the
  content type, the genres and the ratings, and so differ at most in the countries,
  give the same filtered tables and the same page (KPIs, trend and charts included).
\<close>

theorem country_filter_unused:
  assumes "year_range fs1 = year_range fs2" and "content_type fs1 = content_type fs2"
    and "genre_filter fs1 = genre_filter fs2" and "rating_filter fs1 = rating_filter fs2"
  shows "apply_filters db fs1 movies tvshows = apply_filters db fs2 movies tvshows
    \<and> run db fs1 = run db fs2"
proof -
  have same: "apply_filters db fs1 m t = apply_filters db fs2 m t" for m t
    by (simp add: apply_filters_def assms)
  then show ?thesis
    by (simp add: run_def cong: sum.case_cong)
qed

theorem country_filter_unused_witness:
  "country_filter (sample_spec\<lparr>country_filter := [''India'']\<rparr>) \<noteq> country_filter sample_spec
   \<and> apply_filters sample_db (sample_spec\<lparr>country_filter := [''India'']\<rparr>)
        sample_movies sample_tvshows
      = apply_filters sample_db sample_spec sample_movies sample_tvshows
   \<and> run sample_db (sample_spec\<lparr>country_filter := [''India'']\<rparr>) = run sample_db sample_spec"
proof -
  have same: "apply_filters sample_db (sample_spec\<lparr>country_filter := [''India'']\<rparr>)
          sample_movies sample_tvshows
        = apply_filters sample_db sample_spec sample_movies sample_tvshows
      \<and> run sample_db (sample_spec\<lparr>country_filter := [''India'']\<rparr>) = run sample_db sample_spec"
    by (rule country_filter_unused) simp_all
  have differ: "country_filter (sample_spec\<lparr>country_filter := [''India'']\<rparr>)
      \<noteq> country_filter sample_spec"
    by (simp add: sample_spec_def)
  show ?thesis
    by (rule conjI [OF differ same])
qed

section \<open>Missing ratings\<close>

lemma rating_isin_iff:
  "(i, r) \<in> set (rating_isin rs df) \<longleftrightarrow> (i, r) \<in> set df \<and> (\<exists>s \<in> set rs. rating r = Some s)"
  by (auto simp: rating_isin_def split: option.splits)

lemma rated_movie_chosen:
  assumes "rating_filter fs \<noteq> []"
    and "r \<in> snd ` set (fst (apply_filters db fs movies tvshows))"
  shows "\<exists>s \<in> set (rating_filter fs). rating r = Some s"
proof -
  let ?y = "year_block (year_range fs) (movies, tvshows)"
  from assms(2) apply_filters_rows_fst
  have "r \<in> snd ` set (fst (content_block (content_type fs) (rating_block (rating_filter fs) ?y)))"
    by blast
  with content_block_rows_fst have "r \<in> snd ` set (fst (rating_block (rating_filter fs) ?y))"
    by blast
  with assms(1) have "r \<in> snd ` set (rating_isin (rating_filter fs) (fst ?y))"
    by (simp add: rating_block_def)
  then obtain i where "(i, r) \<in> set (rating_isin (rating_filter fs) (fst ?y))"
    by auto
  then show ?thesis by (simp add: rating_isin_iff)
qed

lemma rated_tvshow_chosen:
  assumes "rating_filter fs \<noteq> []"
    and "r \<in> snd ` set (snd (apply_filters db fs movies tvshows))"
  shows "\<exists>s \<in> set (rating_filter fs). rating r = Some s"
proof -
  let ?y = "year_block (year_range fs) (movies, tvshows)"
  from assms(2) apply_filters_rows_snd
  have "r \<in> snd ` set (snd (content_block (content_type fs) (rating_block (rating_filter fs) ?y)))"
    by blast
  with content_block_rows_snd have "r \<in> snd ` set (snd (rating_block (rating_filter fs) ?y))"
    by blast
  with assms(1) have "r \<in> snd ` set (rating_isin (rating_filter fs) (snd ?y))"
    by (simp add: rating_block_def)
  then obtain i where "(i, r) \<in> set (rating_isin (rating_filter fs) (snd ?y))"
    by auto
  then show ?thesis by (simp add: rating_isin_iff)
qed

lemma absent_rating_passes_iff:
  assumes "x \<in> set df" and "rating (snd x) = None"
  shows "x \<in> set (if rs \<noteq> [] then rating_isin rs df else df) \<longleftrightarrow> rs = []"
proof -
  obtain i r where x: "x = (i, r)"
    by (cases x) simp
  with assms(2) have "rating r = None"
    by simp
  then have "(i, r) \<notin> set (rating_isin rs df)"
    by (simp add: rating_isin_iff)
  with assms(1) x show ?thesis
    by simp
qed

text \<open>
  C10. When ratings are selected, no row of either filtered table has a missing rating:
  every row that is left carries one of the selected ratings. A row with a missing
  rating that enters the rating block leaves it exactly when no rating is selected.
\<close>

theorem absent_rating_excluded:
  "(rating_filter fs \<noteq> [] \<longrightarrow>
      (\<forall>r \<in> snd ` set (fst (apply_filters db fs movies tvshows))
             \<union> snd ` set (snd (apply_filters db fs movies tvshows)).
         rating r \<noteq> None \<and> (\<exists>s \<in> set (rating_filter fs). rating r = Some s)))
   \<and> (x \<in> set (fst p) \<and> rating (snd x) = None \<longrightarrow>
        (x \<in> set (fst (rating_block rs p)) \<longleftrightarrow> rs = []))
   \<and> (x \<in> set (snd p) \<and> rating (snd x) = None \<longrightarrow>
        (x \<in> set (snd (rating_block rs p)) \<longleftrightarrow> rs = []))"
proof (intro conjI impI ballI)
  fix r
  assume sel: "rating_filter fs \<noteq> []"
    and r: "r \<in> snd ` set (fst (apply_filters db fs movies tvshows))
             \<union> snd ` set (snd (apply_filters db fs movies tvshows))"
  from r consider "r \<in> snd ` set (fst (apply_filters db fs movies tvshows))"
    | "r \<in> snd ` set (snd (apply_filters db fs movies tvshows))"
    by (auto simp only: Un_iff)
  then show some: "\<exists>s \<in> set (rating_filter fs). rating r = Some s"
  proof cases
    case 1
    with sel show ?thesis by (rule rated_movie_chosen)
  next
    case 2
    with sel show ?thesis by (rule rated_tvshow_chosen)
  qed
  then show "rating r \<noteq> None" by auto
next
  assume "x \<in> set (fst p) \<and> rating (snd x) = None"
  then show "x \<in> set (fst (rating_block rs p)) \<longleftrightarrow> rs = []"
    using absent_rating_passes_iff [of x "fst p" rs] by (cases "rs = []") (simp_all add: rating_block_def)
next
  assume "x \<in> set (snd p) \<and> rating (snd x) = None"
  then show "x \<in> set (snd (rating_block rs p)) \<longleftrightarrow> rs = []"
    using absent_rating_passes_iff [of x "snd p" rs] by (cases "rs = []") (simp_all add: rating_block_def)
qed

theorem absent_rating_excluded_witness:
  "rating_filter (sample_spec\<lparr>rating_filter := [''R'']\<rparr>) \<noteq> []
   \<and> \<lparr>release_year = 2015, rating = Some ''R'', columns = ''B''\<rparr>
       \<in> snd ` set (fst (apply_filters sample_db (sample_spec\<lparr>rating_filter := [''R'']\<rparr>)
             sample_movies sample_tvshows))
   \<and> rating \<lparr>release_year = 2015, rating = Some ''R'', columns = ''B''\<rparr> \<noteq> None
   \<and> (2, \<lparr>release_year = 2016, rating = None, columns = ''C''\<rparr>) \<in> set sample_movies
   \<and> (2, \<lparr>release_year = 2016, rating = None, columns = ''C''\<rparr>)
       \<notin> set (fst (rating_block [''R''] (sample_movies, sample_tvshows)))
   \<and> (2, \<lparr>release_year = 2016, rating = None, columns = ''C''\<rparr>)
       \<in> set (fst (rating_block [] (sample_movies, sample_tvshows)))"
proof -
  let ?fs = "sample_spec\<lparr>rating_filter := [''R'']\<rparr>"
  let ?B = "\<lparr>release_year = 2015, rating = Some ''R'', columns = ''B''\<rparr>"
  let ?C = "\<lparr>release_year = 2016, rating = None, columns = ''C''\<rparr>"
  have sel: "rating_filter ?fs \<noteq> []"
    by simp
  have out: "fst (apply_filters sample_db ?fs sample_movies sample_tvshows) = [(0, ?B)]"
    by code_simp
  have B: "?B \<in> snd ` set (fst (apply_filters sample_db ?fs sample_movies sample_tvshows))"
    by (simp add: out)
  have C: "(2, ?C) \<in> set (fst (sample_movies, sample_tvshows)) \<and> rating (snd (2::int, ?C)) = None"
    by (simp add: sample_movies_def)
  note T = absent_rating_excluded [of ?fs sample_db sample_movies sample_tvshows "(2, ?C)"
      "(sample_movies, sample_tvshows)"]
  from T [THEN conjunct1, THEN mp, OF sel] B
  have 1: "rating ?B \<noteq> None"
    by (simp add: out)
  from T [of "[''R'']", THEN conjunct2, THEN conjunct1, THEN mp, OF C]
  have 2: "(2, ?C) \<notin> set (fst (rating_block [''R''] (sample_movies, sample_tvshows)))"
    by simp
  from T [of "[]", THEN conjunct2, THEN conjunct1, THEN mp, OF C]
  have 3: "(2, ?C) \<in> set (fst (rating_block [] (sample_movies, sample_tvshows)))"
    by simp
  from C have 4: "(2, ?C) \<in> set sample_movies"
    by simp
  show ?thesis
    by (rule conjI [OF sel conjI [OF B conjI [OF 1 conjI [OF 4 conjI [OF 2 3]]]]])
qed

section \<open>Year-wise trend\<close>

lemma matches_distinct_keys:
  "distinct ks \<Longrightarrow> matches k (map (\<lambda>y. (y, f y)) ks) = (if k \<in> set ks then [f k] else [])"
  by (induction ks) (auto simp: matches_def)

lemma groupby_year_size_keys: "map fst (groupby_year_size df) = sort (remdups (years df))"
  by (simp add: groupby_year_size_def comp_def)

lemma groupby_year_size_set_keys: "fst ` set (groupby_year_size df) = set (years df)"
  using groupby_year_size_keys [of df] by (metis set_map set_remdups set_sort)

lemma groupby_year_size_distinct: "distinct (map fst (groupby_year_size df))"
  by (simp add: groupby_year_size_keys)

lemma groupby_year_size_iff:
  "(y, n) \<in> set (groupby_year_size df) \<longleftrightarrow> y \<in> set (years df) \<and> n = count_list (years df) y"
  by (auto simp: groupby_year_size_def)

lemma matches_groupby:
  "matches k (groupby_year_size df)
     = (if k \<in> set (years df) then [count_list (years df) k] else [])"
  unfolding groupby_year_size_def
  by (subst matches_distinct_keys) simp_all

lemma merge_key_groupby:
  assumes "k \<in> set (years m) \<union> set (years t)"
  shows "fillna0 (merge_key (groupby_year_size m) (groupby_year_size t) k)
     = [(k, count_list (years m) k, count_list (years t) k)]"
proof (cases "k \<in> set (years m)")
  case True
  then show ?thesis
    by (cases "k \<in> set (years t)")
      (simp_all add: merge_key_def matches_groupby fillna0_def count_list_0_iff)
next
  case False
  with assms have "k \<in> set (years t)" by simp
  with False show ?thesis
    by (simp add: merge_key_def matches_groupby fillna0_def count_list_0_iff)
qed

lemma fillna0_concat: "fillna0 (concat xss) = concat (map fillna0 xss)"
  by (induction xss) (simp_all add: fillna0_def)

lemma concat_map_singleton_on:
  "(\<And>k. k \<in> set ks \<Longrightarrow> g k = [h k]) \<Longrightarrow> concat (map g ks) = map h ks"
  by (induction ks) simp_all

lemma merged_keys:
  "sort (remdups (map fst (groupby_year_size m) @ map fst (groupby_year_size t)))
     = sort (remdups (years m @ years t))"
  by (rule sorted_distinct_set_unique) (simp_all add: groupby_year_size_keys)

text \<open>The trend table in closed form: the years of either table in ascending order,
  each with its number of rows in the one and in the other table.\<close>

lemma trend_df_closed_form:
  "trend_df m t
     = map (\<lambda>y. (y, count_list (years m) y, count_list (years t) y))
         (sort (remdups (years m @ years t)))"
proof -
  have "trend_df m t
      = concat (map (\<lambda>k. fillna0 (merge_key (groupby_year_size m) (groupby_year_size t) k))
          (sort (remdups (years m @ years t))))"
    by (simp add: trend_df_def merge_outer_def fillna0_concat merged_keys comp_def)
  also have "\<dots> = map (\<lambda>y. (y, count_list (years m) y, count_list (years t) y))
         (sort (remdups (years m @ years t)))"
    by (rule concat_map_singleton_on) (simp add: merge_key_groupby)
  finally show ?thesis .
qed

lemma trend_df_keys: "map fst (trend_df m t) = sort (remdups (years m @ years t))"
  by (simp add: trend_df_closed_form comp_def)

lemma count_years: "count_list (years df) y = length (filter (\<lambda>(i, r). release_year r = y) df)"
  by (induction df) (auto simp: years_def)

lemma year_occurs_iff: "y \<in> set (years df) \<longleftrightarrow> (\<exists>(i, r) \<in> set df. release_year r = y)"
  by (auto simp: years_def)

text \<open>The grouped output of a table: one row per year that a row of the table has, with
  the number of rows of that year.\<close>

lemma groupby_year_size_rows:
  "(y, n) \<in> set (groupby_year_size df)
     \<longleftrightarrow> (\<exists>(i, r) \<in> set df. release_year r = y)
         \<and> n = length (filter (\<lambda>(i, r). release_year r = y) df)"
  by (simp add: groupby_year_size_iff count_years year_occurs_iff)

text \<open>
  C7. The grouped output of a filtered table has one row per year that a row of the table
  has, with the number of rows of that year. The trend table has exactly one row per
  year that occurs in the grouped output of the filtered movies or of the filtered TV
  shows, in ascending order of the year. The row of a year carries the number of movie
  rows and the number of TV-show rows of that year, which are the counts of the two
  grouped outputs for the year; where one side has no row for the year, its count is 0.
\<close>

theorem trend_outer_join:
  "distinct (map fst (trend_df m t))
   \<and> set (map fst (trend_df m t))
       = fst ` set (groupby_year_size m) \<union> fst ` set (groupby_year_size t)
   \<and> (\<forall>(y, a, b) \<in> set (trend_df m t).
         (if y \<in> fst ` set (groupby_year_size m) then (y, a) \<in> set (groupby_year_size m)
          else a = 0)
       \<and> (if y \<in> fst ` set (groupby_year_size t) then (y, b) \<in> set (groupby_year_size t)
          else b = 0))
   \<and> distinct (map fst (groupby_year_size m)) \<and> distinct (map fst (groupby_year_size t))
   \<and> ((y, n) \<in> set (groupby_year_size m)
        \<longleftrightarrow> (\<exists>(i, r) \<in> set m. release_year r = y)
            \<and> n = length (filter (\<lambda>(i, r). release_year r = y) m))
   \<and> ((y, n) \<in> set (groupby_year_size t)
        \<longleftrightarrow> (\<exists>(i, r) \<in> set t. release_year r = y)
            \<and> n = length (filter (\<lambda>(i, r). release_year r = y) t))
   \<and> trend_df m t
       = map (\<lambda>y. (y, length (filter (\<lambda>(i, r). release_year r = y) m),
                      length (filter (\<lambda>(i, r). release_year r = y) t)))
           (sort (remdups (map (\<lambda>(i, r). release_year r) m @ map (\<lambda>(i, r). release_year r) t)))"
proof (intro conjI)
  show "distinct (map fst (trend_df m t))"
    by (simp add: trend_df_keys)
  show "set (map fst (trend_df m t))
       = fst ` set (groupby_year_size m) \<union> fst ` set (groupby_year_size t)"
    by (simp add: trend_df_keys groupby_year_size_set_keys)
  show "\<forall>(y, a, b) \<in> set (trend_df m t).
         (if y \<in> fst ` set (groupby_year_size m) then (y, a) \<in> set (groupby_year_size m)
          else a = 0)
       \<and> (if y \<in> fst ` set (groupby_year_size t) then (y, b) \<in> set (groupby_year_size t)
          else b = 0)"
    by (auto simp: trend_df_closed_form groupby_year_size_set_keys groupby_year_size_iff
        count_list_0_iff)
  show "distinct (map fst (groupby_year_size m))" and "distinct (map fst (groupby_year_size t))"
    by (rule groupby_year_size_distinct)+
  show "(y, n) \<in> set (groupby_year_size m)
        \<longleftrightarrow> (\<exists>(i, r) \<in> set m. release_year r = y)
            \<and> n = length (filter (\<lambda>(i, r). release_year r = y) m)"
    by (rule groupby_year_size_rows)
  show "(y, n) \<in> set (groupby_year_size t)
        \<longleftrightarrow> (\<exists>(i, r) \<in> set t. release_year r = y)
            \<and> n = length (filter (\<lambda>(i, r). release_year r = y) t)"
    by (rule groupby_year_size_rows)
  show "trend_df m t
       = map (\<lambda>y. (y, length (filter (\<lambda>(i, r). release_year r = y) m),
                      length (filter (\<lambda>(i, r). release_year r = y) t)))
           (sort (remdups (map (\<lambda>(i, r). release_year r) m @ map (\<lambda>(i, r). release_year r) t)))"
  proof -
    have "trend_df m t
        = map (\<lambda>y. (y, length (filter (\<lambda>(i, r). release_year r = y) m),
                      length (filter (\<lambda>(i, r). release_year r = y) t)))
            (sort (remdups (years m @ years t)))"
      by (simp only: trend_df_closed_form count_years)
    then show ?thesis
      by (simp only: years_def)
  qed
qed

theorem trend_outer_join_witness:
  "trend_df repeat_movies repeat_tvshows = [(2015, 1, 0), (2016, 3, 1), (2019, 0, 2)]
   \<and> groupby_year_size repeat_movies = [(2015, 1), (2016, 3)]
   \<and> groupby_year_size repeat_tvshows = [(2016, 1), (2019, 2)]
   \<and> length (filter (\<lambda>(i, r). release_year r = 2016) repeat_movies) = 3
   \<and> length (filter (\<lambda>(i, r). release_year r = 2019) repeat_tvshows) = 2
   \<and> length (filter (\<lambda>(i, r). release_year r = 2019) repeat_movies) = 0
   \<and> distinct (map fst (trend_df repeat_movies repeat_tvshows))
   \<and> set (map fst (trend_df repeat_movies repeat_tvshows)) = {2015, 2016, 2019}"
proof -
  note T = trend_outer_join [of repeat_movies repeat_tvshows]
  have years: "sort (remdups (map (\<lambda>(i, r). release_year r) repeat_movies
      @ map (\<lambda>(i, r). release_year r) repeat_tvshows)) = [2015, 2016, 2019]"
    by code_simp
  have m16: "length (filter (\<lambda>(i, r). release_year r = 2016) repeat_movies) = 3"
    by (simp add: repeat_movies_def)
  have m15: "length (filter (\<lambda>(i, r). release_year r = 2015) repeat_movies) = 1"
    by (simp add: repeat_movies_def)
  have m19: "length (filter (\<lambda>(i, r). release_year r = 2019) repeat_movies) = 0"
    by (simp add: repeat_movies_def)
  have t15: "length (filter (\<lambda>(i, r). release_year r = 2015) repeat_tvshows) = 0"
    by (simp add: repeat_tvshows_def)
  have t16: "length (filter (\<lambda>(i, r). release_year r = 2016) repeat_tvshows) = 1"
    by (simp add: repeat_tvshows_def)
  have t19: "length (filter (\<lambda>(i, r). release_year r = 2019) repeat_tvshows) = 2"
    by (simp add: repeat_tvshows_def)
  have tr: "trend_df repeat_movies repeat_tvshows = [(2015, 1, 0), (2016, 3, 1), (2019, 0, 2)]"
    unfolding T [of 0 0, THEN conjunct2, THEN conjunct2, THEN conjunct2, THEN conjunct2,
        THEN conjunct2, THEN conjunct2, THEN conjunct2] years
    by (simp add: m15 m16 m19 t15 t16 t19)
  have gm: "groupby_year_size repeat_movies = [(2015, 1), (2016, 3)]"
    by code_simp
  have gt: "groupby_year_size repeat_tvshows = [(2016, 1), (2019, 2)]"
    by code_simp
  have d: "distinct (map fst (trend_df repeat_movies repeat_tvshows))"
    by (rule T [of 0 0, THEN conjunct1])
  have ks: "set (map fst (trend_df repeat_movies repeat_tvshows)) = {2015, 2016, 2019}"
    unfolding T [of 0 0, THEN conjunct2, THEN conjunct1] by (auto simp: gm gt)
  show ?thesis
    by (rule conjI [OF tr conjI [OF gm conjI [OF gt conjI [OF m16 conjI [OF t19
        conjI [OF m19 conjI [OF d ks]]]]]]])
qed

section \<open>Genre and country popularity\<close>

lemma group_by_count_iff:
  "(l, n) \<in> set (group_by_count labels) \<longleftrightarrow> l \<in> set labels \<and> n = count_list labels l"
  by (auto simp: group_by_count_def)

lemma group_by_count_keys: "map fst (group_by_count labels) = sort (remdups labels)"
  by (simp add: group_by_count_def comp_def)

lemma group_count_desc_iff:
  "(l, n) \<in> set (group_count_desc labels) \<longleftrightarrow> l \<in> set labels \<and> n = count_list labels l"
  by (simp add: group_count_desc_def order_by_total_desc_def group_by_count_iff)

lemma group_count_desc_distinct: "distinct (map fst (group_count_desc labels))"
proof -
  let ?xs = "group_by_count labels"
  have "distinct (map fst ?xs)"
    by (simp add: group_by_count_keys)
  then have "distinct ?xs \<and> inj_on fst (set ?xs)"
    by (simp only: distinct_map)
  then show ?thesis
    by (simp add: group_count_desc_def order_by_total_desc_def distinct_map)
qed

lemma group_count_desc_sorted:
  "sorted_wrt (\<lambda>a b. snd b \<le> snd a) (group_count_desc labels)"
proof -
  have "sorted (map snd (sort_key snd (group_by_count labels)))"
    by (rule sorted_sort_key)
  then have "sorted_wrt (\<lambda>a b. snd a \<le> snd b) (sort_key snd (group_by_count labels))"
    by (simp add: sorted_wrt_map)
  then show ?thesis
    by (simp add: group_count_desc_def order_by_total_desc_def sorted_wrt_rev)
qed

text \<open>Labels of equal totals come in descending order, NULL last.\<close>

lemma group_count_desc_ties:
  "group_count_desc [Some ''b'', Some ''a'', None, Some ''c'', Some ''a'', Some ''aa'', Some []]
     = [(Some ''a'', 2), (Some ''c'', 1), (Some ''b'', 1), (Some ''aa'', 1), (Some [], 1), (None, 1)]"
  by code_simp

lemma head10_top:
  assumes "sorted_wrt (\<lambda>a b. snd b \<le> snd a) xs"
    and "a \<in> set (head10 xs)" and "b \<in> set (drop 10 xs)"
  shows "snd b \<le> snd a"
proof -
  have "sorted_wrt (\<lambda>a b. snd b \<le> snd a) (take 10 xs @ drop 10 xs)"
    using assms(1) by simp
  with assms(2,3) show ?thesis
    unfolding sorted_wrt_append head10_def by blast
qed

lemma run_charts:
  assumes "run db fs = Inr p"
  shows "fig_movie_genre p = head10 (load_movie_genres db)"
    and "fig_tv_genre p = head10 (load_tv_genres db)"
    and "fig_movie_country p = head10 (load_movie_countries db)"
    and "fig_tv_country p = head10 (load_tv_countries db)"
  using assms by (auto simp: run_def Let_def split: sum.splits prod.splits)

text \<open>Whether a run fails is decided by the cleaning alone, never by the widgets.\<close>

lemma run_fails_alike: "(\<exists>p. run db fs1 = Inr p) \<longleftrightarrow> (\<exists>p. run db fs2 = Inr p)"
  by (auto simp: run_def Let_def split: sum.splits prod.splits)

text \<open>
  C8. The four popularity charts of a run are the first ten rows of the aggregates of
  the whole association tables: one (label, count) row per label of the table, with
  the number of rows of that label in the whole table, ordered by descending count, so
  that no row left out has a larger count than a row shown. Two runs on the same
  database show the same four charts, whatever their widget values are.
\<close>

theorem popularity_ignores_filters:
  "(run db fs1 = Inr p1 \<and> run db fs2 = Inr p2 \<longrightarrow>
      fig_movie_genre p1 = fig_movie_genre p2 \<and> fig_tv_genre p1 = fig_tv_genre p2
      \<and> fig_movie_country p1 = fig_movie_country p2 \<and> fig_tv_country p1 = fig_tv_country p2)
   \<and> (run db fs = Inr p \<longrightarrow>
      fig_movie_genre p = take 10 (group_count_desc (map genre (tbl_movie_genres db)))
      \<and> fig_tv_genre p = take 10 (group_count_desc (map genre (tbl_tvshow_genres db)))
      \<and> fig_movie_country p = take 10 (group_count_desc (map country (tbl_movie_countries db)))
      \<and> fig_tv_country p = take 10 (group_count_desc (map country (tbl_tvshows_countries db))))
   \<and> sorted_wrt (\<lambda>a b. snd b \<le> snd a) (group_count_desc labels)
   \<and> distinct (map fst (group_count_desc labels))
   \<and> ((l, n) \<in> set (group_count_desc labels) \<longleftrightarrow> l \<in> set labels \<and> n = count_list labels l)
   \<and> (a \<in> set (take 10 (group_count_desc labels)) \<and> b \<in> set (drop 10 (group_count_desc labels))
        \<longrightarrow> snd b \<le> snd a)"
proof (intro conjI impI)
  assume "run db fs1 = Inr p1 \<and> run db fs2 = Inr p2"
  then have 1: "run db fs1 = Inr p1" and 2: "run db fs2 = Inr p2"
    by simp_all
  show "fig_movie_genre p1 = fig_movie_genre p2"
    by (simp add: run_charts(1) [OF 1] run_charts(1) [OF 2])
  show "fig_tv_genre p1 = fig_tv_genre p2"
    by (simp add: run_charts(2) [OF 1] run_charts(2) [OF 2])
  show "fig_movie_country p1 = fig_movie_country p2"
    by (simp add: run_charts(3) [OF 1] run_charts(3) [OF 2])
  show "fig_tv_country p1 = fig_tv_country p2"
    by (simp add: run_charts(4) [OF 1] run_charts(4) [OF 2])
next
  assume r: "run db fs = Inr p"
  show "fig_movie_genre p = take 10 (group_count_desc (map genre (tbl_movie_genres db)))"
    by (simp add: run_charts(1) [OF r] head10_def load_movie_genres_def)
  show "fig_tv_genre p = take 10 (group_count_desc (map genre (tbl_tvshow_genres db)))"
    by (simp add: run_charts(2) [OF r] head10_def load_tv_genres_def)
  show "fig_movie_country p = take 10 (group_count_desc (map country (tbl_movie_countries db)))"
    by (simp add: run_charts(3) [OF r] head10_def load_movie_countries_def)
  show "fig_tv_country p = take 10 (group_count_desc (map country (tbl_tvshows_countries db)))"
    by (simp add: run_charts(4) [OF r] head10_def load_tv_countries_def)
next
  show "sorted_wrt (\<lambda>a b. snd b \<le> snd a) (group_count_desc labels)"
    by (rule group_count_desc_sorted)
  show "distinct (map fst (group_count_desc labels))"
    by (rule group_count_desc_distinct)
  show "(l, n) \<in> set (group_count_desc labels) \<longleftrightarrow> l \<in> set labels \<and> n = count_list labels l"
    by (rule group_count_desc_iff)
next
  assume "a \<in> set (take 10 (group_count_desc labels)) \<and> b \<in> set (drop 10 (group_count_desc labels))"
  then show "snd b \<le> snd a"
    using head10_top [OF group_count_desc_sorted, of a labels b] by (simp add: head10_def)
qed

lemma sample_run: "run sample_db sample_spec = Inr sample_page"
  by code_simp

lemma sample_run_pg: "run sample_db sample_spec_pg = Inr sample_page_pg"
  by code_simp

theorem popularity_ignores_filters_witness:
  "run sample_db sample_spec = Inr sample_page
   \<and> run sample_db sample_spec_pg = Inr sample_page_pg
   \<and> movies_f sample_page \<noteq> movies_f sample_page_pg
   \<and> fig_movie_genre sample_page = fig_movie_genre sample_page_pg
   \<and> fig_tv_genre sample_page = fig_tv_genre sample_page_pg
   \<and> fig_movie_country sample_page = fig_movie_country sample_page_pg
   \<and> fig_tv_country sample_page = fig_tv_country sample_page_pg
   \<and> fig_movie_genre sample_page
       = take 10 (group_count_desc (map genre (tbl_movie_genres sample_db)))"
proof -
  note T = popularity_ignores_filters [of sample_db sample_spec sample_page sample_spec_pg
      sample_page_pg sample_spec sample_page]
  have runs: "run sample_db sample_spec = Inr sample_page
      \<and> run sample_db sample_spec_pg = Inr sample_page_pg"
    by (rule conjI [OF sample_run sample_run_pg])
  have differ: "movies_f sample_page \<noteq> movies_f sample_page_pg"
    by (simp add: sample_page_def sample_page_pg_def)
  note same = T [THEN conjunct1, THEN mp, OF runs]
  note top = T [THEN conjunct2, THEN conjunct1, THEN mp, OF sample_run, THEN conjunct1]
  show ?thesis
    by (rule conjI [OF sample_run conjI [OF sample_run_pg conjI [OF differ]]])
      (simp add: same top [symmetric])
qed

section \<open>Data cleaning\<close>

lemma isnumeric_mask_iff:
  "(i, r) \<in> set (isnumeric_mask df)
     \<longleftrightarrow> (i, r) \<in> set df \<and> column_dtype (map (\<lambda>(i, r). release_year r) df) \<noteq> Float64
         \<and> str_isnumeric (astype_str (release_year r))"
  by (auto simp: isnumeric_mask_def cell_isnumeric_def)

text \<open>A column with a text in it is masked cell by cell.\<close>

lemma column_dtype_text: "PyStr s \<in> set cells \<Longrightarrow> column_dtype cells = Object"
proof -
  assume "PyStr s \<in> set cells"
  then have "list_ex is_text cells"
    unfolding list_ex_iff by (rule bexI [rotated]) simp
  then show ?thesis
    by (simp add: column_dtype_def)
qed

lemma isnumeric_mask_text:
  assumes "(j, q) \<in> set df" and "release_year q = PyStr s"
  shows "isnumeric_mask df = filter (\<lambda>(i, r). str_isnumeric (astype_str (release_year r))) df"
proof -
  from assms have "PyStr s \<in> set (map (\<lambda>(i, r). release_year r) df)"
    by force
  then have "column_dtype (map (\<lambda>(i, r). release_year r) df) = Object"
    by (rule column_dtype_text)
  then show ?thesis
    by (simp add: isnumeric_mask_def cell_isnumeric_def)
qed

text \<open>Of a column of integers with a NULL the mask keeps no row.\<close>

lemma isnumeric_mask_float:
  "column_dtype (map (\<lambda>(i, r). release_year r) df) = Float64 \<Longrightarrow> isnumeric_mask df = []"
  by (simp add: isnumeric_mask_def cell_isnumeric_def)

lemma null_year_db_empty:
  "year_normalizer (load_movies null_year_db) = Inr []"
  by (simp add: year_normalizer_def isnumeric_mask_def cell_isnumeric_def column_dtype_def
      load_movies_def range_index_def null_year_db_def)

lemma isdecimal_digit_char: "d < 10 \<Longrightarrow> isdecimal_char (digit_char d)"
  by (simp add: isdecimal_char_def digit_char_def)

lemma show_nat_decimal: "str_isdecimal (show_nat n)"
proof (induction n rule: show_nat.induct)
  case (1 n)
  show ?case
  proof (cases "n < 10")
    case True
    then show ?thesis
      by (simp add: show_nat.simps [of n] str_isdecimal_def isdecimal_digit_char)
  next
    case False
    with "1" have "str_isdecimal (show_nat (n div 10))"
      by simp
    with False show ?thesis
      by (simp add: show_nat.simps [of n] str_isdecimal_def isdecimal_digit_char)
  qed
qed

lemma isdecimal_isnumeric: "str_isdecimal s \<Longrightarrow> str_isnumeric s"
  by (auto simp: str_isdecimal_def str_isnumeric_def isnumeric_char_def list_all_iff)

text \<open>An integer cell of an \<open>int64\<close> column or of a column of objects reads as a
  numeric string exactly when it is not negative.\<close>

lemma isnumeric_PyInt: "str_isnumeric (astype_str (PyInt i)) \<longleftrightarrow> 0 \<le> i"
proof (cases "i < 0")
  case True
  then show ?thesis
    by (simp add: astype_str_def show_int_def str_isnumeric_def isnumeric_char_def
        isdecimal_char_def)
next
  case False
  then show ?thesis
    using isdecimal_isnumeric [OF show_nat_decimal, of "nat i"]
    by (simp add: astype_str_def show_int_def)
qed

lemma isnumeric_PyNone: "\<not> str_isnumeric (astype_str PyNone)"
  by (simp add: astype_str_def str_isnumeric_def isnumeric_char_def isdecimal_char_def)

text \<open>Below U+0080 the numeric characters are the decimal digits.\<close>

lemma isnumeric_char_ascii:
  "(of_char c :: nat) < 128 \<Longrightarrow> isnumeric_char c \<longleftrightarrow> isdecimal_char c"
  by (auto simp: isnumeric_char_def)

lemma isnumeric_ascii:
  "list_all (\<lambda>c. (of_char c :: nat) < 128) s \<Longrightarrow> str_isnumeric s \<longleftrightarrow> str_isdecimal s"
proof -
  assume "list_all (\<lambda>c. (of_char c :: nat) < 128) s"
  then have "list_all isnumeric_char s \<longleftrightarrow> list_all isdecimal_char s"
    by (induction s) (simp_all add: isnumeric_char_ascii)
  then show ?thesis
    by (simp add: str_isnumeric_def str_isdecimal_def)
qed

text \<open>What a successful conversion returns: the same labels, ratings and other
  columns, and in \<open>release_year\<close> the integer of the cell.\<close>

lemma astype_int_Inr_iff:
  "astype_int df = Inr df' \<longleftrightarrow>
     list_all2 (\<lambda>(i, r) (j, r'). j = i \<and> int_of_value (release_year r) = Inr (release_year r')
        \<and> rating r' = rating r \<and> columns r' = columns r) df df'"
proof (induction df arbitrary: df')
  case Nil
  then show ?case by auto
next
  case (Cons x df)
  obtain i r where x: "x = (i, r)" by (cases x) simp
  show ?case
  proof (cases df')
    case Nil
    then show ?thesis
      by (simp add: x split: sum.splits)
  next
    case (Cons x' df'')
    obtain j r' where x': "x' = (j, r')" by (cases x') simp
    obtain y' g' c' where r': "r' = \<lparr>release_year = y', rating = g', columns = c'\<rparr>"
      by (cases r') simp
    show ?thesis
      unfolding Cons x x' r' using Cons.IH [of df'']
      by (auto split: sum.splits)
  qed
qed

lemma astype_int_succeeds:
  "(\<And>i r. (i, r) \<in> set df \<Longrightarrow> \<exists>y. int_of_value (release_year r) = Inr y)
     \<Longrightarrow> \<exists>df'. astype_int df = Inr df'"
proof (induction df)
  case Nil
  then show ?case by simp
next
  case (Cons x df)
  obtain i r where x: "x = (i, r)" by (cases x) simp
  from Cons.prems [of i r] x obtain y where y: "int_of_value (release_year r) = Inr y"
    by auto
  from Cons.IH Cons.prems obtain df' where "astype_int df = Inr df'"
    by auto
  with x y show ?case by simp
qed

lemma astype_int_fails:
  "(i, r) \<in> set df \<Longrightarrow> int_of_value (release_year r) = Inl e \<Longrightarrow> \<exists>e'. astype_int df = Inl e'"
  by (induction df) (auto split: sum.splits)

text \<open>When every cell that passes the mask converts, the Year Normalizer returns the
  masked rows with their years converted.\<close>

lemma year_normalizer_succeeds:
  assumes "\<And>i r. (i, r) \<in> set df \<Longrightarrow> str_isnumeric (astype_str (release_year r))
      \<Longrightarrow> \<exists>y. int_of_value (release_year r) = Inr y"
  shows "\<exists>df'. year_normalizer df = Inr df'
     \<and> list_all2 (\<lambda>(i, r) (j, r'). j = i \<and> int_of_value (release_year r) = Inr (release_year r')
          \<and> rating r' = rating r \<and> columns r' = columns r) (isnumeric_mask df) df'"
proof -
  have "\<exists>df'. astype_int (isnumeric_mask df) = Inr df'"
    by (rule astype_int_succeeds) (auto simp: isnumeric_mask_iff intro: assms)
  then obtain df' where "astype_int (isnumeric_mask df) = Inr df'" ..
  then show ?thesis
    by (auto simp: year_normalizer_def astype_int_Inr_iff [symmetric])
qed

text \<open>A cell that passes the mask and does not convert makes the whole step fail.\<close>

lemma year_normalizer_fails:
  assumes "(i, r) \<in> set df" and "str_isnumeric (astype_str (release_year r))"
    and "column_dtype (map (\<lambda>(i, r). release_year r) df) \<noteq> Float64"
    and "int_of_value (release_year r) = Inl e"
  shows "\<exists>e'. year_normalizer df = Inl e'"
  unfolding year_normalizer_def
  by (rule astype_int_fails [of i r, OF _ assms(4)]) (simp add: isnumeric_mask_iff assms)

lemma year_in_series_range:
  assumes "y \<in> set ys"
  shows "\<exists>lo hi. series_min ys = Some lo \<and> series_max ys = Some hi \<and> lo \<le> y \<and> y \<le> hi"
proof -
  from assms have "ys \<noteq> []" by auto
  moreover from assms have "Min (set ys) \<le> y" and "y \<le> Max (set ys)"
    by simp_all
  ultimately show ?thesis
    by (simp add: series_min_def series_max_def)
qed

text \<open>With rows in both cleaned tables, every year of either lies between \<open>min_year\<close>
  and \<open>max_year\<close>; with no movie left the two bounds are NaN.\<close>

lemma years_within_bounds:
  assumes "movies \<noteq> []" and "tvshows \<noteq> []"
    and "y \<in> set (years movies) \<union> set (years tvshows)"
  shows "\<exists>lo hi. min_year movies tvshows = Some lo \<and> max_year movies tvshows = Some hi
     \<and> lo \<le> y \<and> y \<le> hi"
proof -
  from assms(1) obtain ym where ym: "ym \<in> set (years movies)"
    by (cases movies) (auto simp: years_def)
  from assms(2) obtain yt where yt: "yt \<in> set (years tvshows)"
    by (cases tvshows) (auto simp: years_def)
  from year_in_series_range [OF ym] obtain lm hm
    where m: "series_min (years movies) = Some lm" "series_max (years movies) = Some hm"
    by blast
  from year_in_series_range [OF yt] obtain lt ht
    where t: "series_min (years tvshows) = Some lt" "series_max (years tvshows) = Some ht"
    by blast
  from assms(3) consider "y \<in> set (years movies)" | "y \<in> set (years tvshows)"
    by (auto simp only: Un_iff)
  then have "min lm lt \<le> y \<and> y \<le> max hm ht"
  proof cases
    case 1
    from year_in_series_range [OF this] m show ?thesis by auto
  next
    case 2
    from year_in_series_range [OF this] t show ?thesis by auto
  qed
  then show ?thesis
    by (auto simp: min_year_def max_year_def py_min_def py_max_def nan_less_def m t)
qed

lemma bounds_without_movies: "min_year [] tvshows = None \<and> max_year [] tvshows = None"
  by (simp add: min_year_def max_year_def py_min_def py_max_def nan_less_def years_def
      series_min_def series_max_def)

text \<open>
  C3. The mask of line 106 keeps the rows whose \<open>release_year\<close>, as a string, passes
  \<open>str.isnumeric\<close>, which the fraction character U+00BD does although it is no digit,
  and line 109 then converts every kept cell with \<open>int\<close>. On \<open>fraction_db\<close> the row
  with that year is kept by the mask and the conversion raises ValueError: the run ends
  there with no table, where the claim has the row dropped silently and the row of 2015
  kept.
\<close>

theorem year_normalizer_fraction_raises:
  "str_isnumeric [CHR 0xBD] \<and> \<not> str_isdecimal [CHR 0xBD]
   \<and> isnumeric_mask (load_movies fraction_db) = load_movies fraction_db
   \<and> year_normalizer (load_movies fraction_db) = Inl ValueError
   \<and> run fraction_db sample_spec = Inl ValueError"
  by (simp add: str_isnumeric_def str_isdecimal_def isnumeric_char_def isdecimal_char_def
      isnumeric_mask_def cell_isnumeric_def column_dtype_def load_movies_def load_tvshows_def
      range_index_def fraction_db_def astype_str_def
      year_normalizer_def int_of_value_def run_def decimal_value_def int64_def)

text \<open>A year of twenty digits passes the mask and is too large for 64 bits.\<close>

lemma year_normalizer_long_year_raises:
  "str_isdecimal ''99999999999999999999''
   \<and> year_normalizer (load_movies long_year_db) = Inl OverflowError
   \<and> run long_year_db sample_spec = Inl OverflowError"
  by (simp add: str_isnumeric_def str_isdecimal_def isnumeric_char_def isdecimal_char_def
      isnumeric_mask_def cell_isnumeric_def column_dtype_def load_movies_def load_tvshows_def
      range_index_def long_year_db_def astype_str_def
      year_normalizer_def int_of_value_def run_def decimal_value_def int64_def)

section \<open>Genre filter\<close>

text \<open>With no genre selected the genre block changes nothing.\<close>

lemma genre_block_no_selection: "genre_block db [] p = p"
  by (simp add: genre_block_def)

lemma keep_ids_iff: "(i, r) \<in> set (keep_ids ids df) \<longleftrightarrow> (i, r) \<in> set df \<and> i \<in> set ids"
  by (auto simp: keep_ids_def index_isin_def)

lemma select_rowids_iff:
  "i \<in> set (select_rowids gs links)
     \<longleftrightarrow> (\<exists>l \<in> set links. rowid l = i \<and> (\<exists>g \<in> set gs. genre l = Some g))"
  by (auto simp: select_rowids_def split: option.splits)

text \<open>
  What the genre block selects: the labels it compares with the rowids are those of
  \<open>reset_index\<close>, the positions of the rows among the rows that passed the year, rating
  and content-type blocks.
\<close>

lemma genre_block_by_position:
  assumes "gs \<noteq> []"
  shows "(i, r) \<in> set (fst (genre_block db gs (reset_block p)))
     \<longleftrightarrow> (i, r) \<in> set (range_index (map snd (fst p)))
         \<and> i \<in> set (select_rowids gs (tbl_movie_genres db))"
    and "(i, r) \<in> set (snd (genre_block db gs (reset_block p)))
     \<longleftrightarrow> (i, r) \<in> set (range_index (map snd (snd p)))
         \<and> i \<in> set (select_rowids gs (tbl_tvshow_genres db))"
  using assms by (simp_all add: genre_block_def Let_def reset_block_def reset_index_def keep_ids_iff)

lemma reset_index_range_index: "reset_index (range_index rs) = range_index rs"
  by (simp add: reset_index_def rows_range_index)

text \<open>When the earlier blocks drop no row of a freshly loaded table, position and row
  identifier agree and the genre block selects by identifier.\<close>

lemma genre_block_on_unfiltered:
  assumes "gs \<noteq> []" and "fst p = range_index rs"
  shows "(i, r) \<in> set (fst (genre_block db gs (reset_block p)))
     \<longleftrightarrow> (i, r) \<in> set (fst p) \<and> i \<in> set (select_rowids gs (tbl_movie_genres db))"
  using assms by (simp add: genre_block_by_position rows_range_index)

lemma sample_dramas_ids: "select_rowids [''Dramas''] (tbl_movie_genres sample_db) = [1]"
  by (simp add: select_rowids_def sample_db_def)

text \<open>
  C1. On \<open>sample_db\<close> with the years 2010 to 2020 and the genre \<open>Dramas\<close> selected, the
  genre query returns the rowid 1. Movie \<open>B\<close> has row identifier 1 and passes the year,
  rating and content-type predicates; movie \<open>C\<close> has row identifier 2, which the query
  does not return. The filtered movie table nevertheless holds \<open>C\<close> and not \<open>B\<close>: after
  \<open>reset_index\<close> the label 1 is the position of \<open>C\<close> among the rows that passed the
  year block.
\<close>

theorem genre_filter_selects_by_position:
  "select_rowids (genre_filter sample_spec_dramas) (tbl_movie_genres sample_db) = [1]
   \<and> year_normalizer (load_movies sample_db) = Inr sample_movies
   \<and> year_normalizer (load_tvshows sample_db) = Inr sample_tvshows
   \<and> (1, \<lparr>release_year = 2015, rating = Some ''R'', columns = ''B''\<rparr>) \<in> set sample_movies
   \<and> (2, \<lparr>release_year = 2016, rating = None, columns = ''C''\<rparr>) \<in> set sample_movies
   \<and> map snd (fst (apply_filters sample_db (sample_spec_dramas\<lparr>genre_filter := []\<rparr>)
         sample_movies sample_tvshows))
       = [\<lparr>release_year = 2015, rating = Some ''R'', columns = ''B''\<rparr>,
          \<lparr>release_year = 2016, rating = None, columns = ''C''\<rparr>]
   \<and> map snd (fst (apply_filters sample_db sample_spec_dramas sample_movies sample_tvshows))
       = [\<lparr>release_year = 2016, rating = None, columns = ''C''\<rparr>]
   \<and> (\<exists>p. run sample_db sample_spec_dramas = Inr p
         \<and> map snd (movies_f p) = [\<lparr>release_year = 2016, rating = None, columns = ''C''\<rparr>])"
proof -
  have ids: "select_rowids (genre_filter sample_spec_dramas) (tbl_movie_genres sample_db) = [1]"
    by (simp add: sample_spec_dramas_def sample_dramas_ids)
  have B: "(1, \<lparr>release_year = 2015, rating = Some ''R'', columns = ''B''\<rparr>) \<in> set sample_movies"
    by (simp add: sample_movies_def)
  have C: "(2, \<lparr>release_year = 2016, rating = None, columns = ''C''\<rparr>) \<in> set sample_movies"
    by (simp add: sample_movies_def)
  have before: "map snd (fst (apply_filters sample_db (sample_spec_dramas\<lparr>genre_filter := []\<rparr>)
         sample_movies sample_tvshows))
       = [\<lparr>release_year = 2015, rating = Some ''R'', columns = ''B''\<rparr>,
          \<lparr>release_year = 2016, rating = None, columns = ''C''\<rparr>]"
    by code_simp
  have after: "apply_filters sample_db sample_spec_dramas sample_movies sample_tvshows
       = ([(1, \<lparr>release_year = 2016, rating = None, columns = ''C''\<rparr>)],
          [(0, \<lparr>release_year = 2016, rating = Some ''TV-MA'', columns = ''T''\<rparr>)])"
    by code_simp
  have page: "\<exists>p. run sample_db sample_spec_dramas = Inr p
         \<and> map snd (movies_f p) = [\<lparr>release_year = 2016, rating = None, columns = ''C''\<rparr>]"
    using sample_movies_clean sample_tvshows_clean
    by (simp add: run_def year_normalizer_def after)
  from ids sample_movies_clean sample_tvshows_clean B C before after page show ?thesis
    by simp
qed

section \<open>The page of a run\<close>

text \<open>A run that returns a page cleaned both tables, filtered them with \<open>apply_filters\<close>
  and counted the filtered tables; so what holds for \<open>apply_filters\<close>, \<open>kpi_metrics\<close>
  and \<open>trend_df\<close> holds for the tables and numbers on the page.\<close>

lemma run_page:
  assumes "run db fs = Inr p"
  shows "\<exists>movies tvshows. year_normalizer (load_movies db) = Inr movies
     \<and> year_normalizer (load_tvshows db) = Inr tvshows
     \<and> (movies_f p, tvshows_f p) = apply_filters db fs movies tvshows
     \<and> kpis p = kpi_metrics (movies_f p) (tvshows_f p)
     \<and> trend p = trend_df (movies_f p) (tvshows_f p)"
  using assms
  by (auto simp: run_def year_normalizer_def Let_def split: sum.splits prod.splits)

lemma run_kpis:
  "run db fs = Inr p \<Longrightarrow>
     kpis p = (length (movies_f p), length (tvshows_f p), length (movies_f p) + length (tvshows_f p))"
  by (drule run_page) (auto simp: kpi_metrics_def)

text \<open>A run fails exactly when the conversion of one of the two masked tables fails.\<close>

lemma run_error_iff:
  "run db fs = Inl e \<longleftrightarrow>
     year_normalizer (load_movies db) = Inl e
     \<or> (\<exists>movies. year_normalizer (load_movies db) = Inr movies)
        \<and> year_normalizer (load_tvshows db) = Inl e"
  by (auto simp: run_def year_normalizer_def Let_def split: sum.splits prod.splits)

end
